theory Spec2Isabelle
  imports Main
begin

section \<open>Python values\<close>

text \<open>
  A Python \<open>str\<close> is a sequence of Unicode code points; it is modelled as a list of
  natural numbers, one per code point, so that indexing, length and trimming count what
  Python counts. \<open>ustr\<close> turns an ASCII literal into such a list; code points outside
  ASCII are written as numbers (\<open>243\<close> is o-acute, \<open>176\<close> the degree sign).
\<close>

type_synonym pystr = "nat list"

definition ustr :: "string \<Rightarrow> pystr" where
  "ustr s = map of_char s"

text \<open>
  What \<open>r.json()\<close> can return: any JSON value. The type parameter \<open>'f\<close> is the type of
  floating-point numbers, which is left abstract. A dict is an association list in
  insertion order; a lookup takes the first binding of a key.
\<close>

datatype 'f json =
    JNull
  | JBool bool
  | JInt int
  | JFloat 'f
  | JStr pystr
  | JList "'f json list"
  | JObj "(pystr \<times> 'f json) list"

datatype pyerr =
    TypeError | ValueError | OverflowError | IndexError | KeyError | AttributeError
  | TransportError

text \<open>
  The behaviour of the Python built-ins that depends on tables which are not part of
  the repository (the Unicode database, the printing of floats) is a parameter of the
  model: every function below that formats or converts a value takes it as its first
  argument, and every theorem holds for all of its values.
\<close>

record 'f pybuiltins =
  repr_str :: "pystr \<Rightarrow> pystr"
  int_str :: "pystr \<Rightarrow> pyerr + int"
  str_float :: "'f \<Rightarrow> pystr"
  int_float :: "'f \<Rightarrow> pyerr + int"
  bool_float :: "'f \<Rightarrow> bool"

subsection \<open>Strings\<close>

text \<open>
  \<open>str.lower\<close>: the model lower-cases the code points whose lower case contains an
  ASCII letter (\<open>A\<close> to \<open>Z\<close>, U+0130 and U+212A). Python maps some further code points
  outside ASCII to other code points outside ASCII; they are left unchanged here, which
  no comparison with an ASCII literal can observe.
\<close>

definition lower_cp :: "nat \<Rightarrow> pystr" where
  "lower_cp c =
     (if 65 \<le> c \<and> c \<le> 90 then [c + 32]
      else if c = 304 then [105, 775]
      else if c = 8490 then [107]
      else [c])"

definition py_lower :: "pystr \<Rightarrow> pystr" where
  "py_lower s = concat (map lower_cp s)"

definition startswith :: "pystr \<Rightarrow> pystr \<Rightarrow> bool" where
  "startswith s p = (take (length p) s = p)"

text \<open>The code points that \<open>str.strip()\<close> removes (\<open>str.isspace\<close>).\<close>

definition is_space :: "nat \<Rightarrow> bool" where
  "is_space c =
     ((9 \<le> c \<and> c \<le> 13) \<or> (28 \<le> c \<and> c \<le> 32) \<or> c = 133 \<or> c = 160 \<or> c = 5760
      \<or> (8192 \<le> c \<and> c \<le> 8202) \<or> c = 8232 \<or> c = 8233 \<or> c = 8239 \<or> c = 8287
      \<or> c = 12288)"

definition lstrip :: "pystr \<Rightarrow> pystr" where
  "lstrip s = dropWhile is_space s"

definition rstrip :: "pystr \<Rightarrow> pystr" where
  "rstrip s = rev (dropWhile is_space (rev s))"

definition py_strip :: "pystr \<Rightarrow> pystr" where
  "py_strip s = rstrip (lstrip s)"

fun py_join :: "pystr \<Rightarrow> pystr list \<Rightarrow> pystr" where
  "py_join sep [] = []"
| "py_join sep [x] = x"
| "py_join sep (x # y # ys) = x @ sep @ py_join sep (y # ys)"

text \<open>\<open>needle in s\<close> for strings.\<close>

fun contains :: "pystr \<Rightarrow> pystr \<Rightarrow> bool" where
  "contains [] needle = (needle = [])"
| "contains (c # cs) needle = (startswith (c # cs) needle \<or> contains cs needle)"

subsection \<open>Printing and converting values\<close>

function digits :: "nat \<Rightarrow> pystr" where
  "digits n = (if n < 10 then [48 + n] else digits (n div 10) @ [48 + n mod 10])"
  by pat_completeness auto
termination
  by (relation "measure id") auto

declare digits.simps [simp del]

definition str_int :: "int \<Rightarrow> pystr" where
  "str_int i = (if i < 0 then 45 # digits (nat (- i)) else digits (nat i))"

fun py_repr :: "'f pybuiltins \<Rightarrow> 'f json \<Rightarrow> pystr" where
  "py_repr B JNull = ustr ''None''"
| "py_repr B (JBool b) = (if b then ustr ''True'' else ustr ''False'')"
| "py_repr B (JInt n) = str_int n"
| "py_repr B (JFloat f) = str_float B f"
| "py_repr B (JStr s) = repr_str B s"
| "py_repr B (JList xs) = ustr ''['' @ py_join (ustr '', '') (map (py_repr B) xs) @ ustr '']''"
| "py_repr B (JObj kvs) =
     ustr ''{''
     @ py_join (ustr '', '') (map (\<lambda>(k, v). repr_str B k @ ustr '': '' @ py_repr B v) kvs)
     @ ustr ''}''"

text \<open>\<open>str(v)\<close>, which is what an f-string field \<open>{v}\<close> prints.\<close>

definition py_str :: "'f pybuiltins \<Rightarrow> 'f json \<Rightarrow> pystr" where
  "py_str B v = (case v of JStr s \<Rightarrow> s | _ \<Rightarrow> py_repr B v)"

text \<open>\<open>int(v)\<close>.\<close>

fun py_int :: "'f pybuiltins \<Rightarrow> 'f json \<Rightarrow> pyerr + int" where
  "py_int B JNull = Inl TypeError"
| "py_int B (JBool b) = Inr (if b then 1 else 0)"
| "py_int B (JInt n) = Inr n"
| "py_int B (JFloat f) = int_float B f"
| "py_int B (JStr s) = int_str B s"
| "py_int B (JList xs) = Inl TypeError"
| "py_int B (JObj kvs) = Inl TypeError"

text \<open>Truth value of a value, as \<open>if v\<close>, \<open>not v\<close> and \<open>v or w\<close> test it.\<close>

fun truthy :: "'f pybuiltins \<Rightarrow> 'f json \<Rightarrow> bool" where
  "truthy B JNull = False"
| "truthy B (JBool b) = b"
| "truthy B (JInt n) = (n \<noteq> 0)"
| "truthy B (JFloat f) = bool_float B f"
| "truthy B (JStr s) = (s \<noteq> [])"
| "truthy B (JList xs) = (xs \<noteq> [])"
| "truthy B (JObj kvs) = (kvs \<noteq> [])"

definition py_or :: "'f pybuiltins \<Rightarrow> 'f json \<Rightarrow> 'f json \<Rightarrow> 'f json" where
  "py_or B x y = (if truthy B x then x else y)"

text \<open>\<open>d.get(k, dflt)\<close> on a dict; \<open>d.get(k)\<close> is \<open>dict_get d k JNull\<close>. A value that is not
  a dict has no such method: the functions below raise \<open>AttributeError\<close> there.\<close>

definition dict_get :: "(pystr \<times> 'f json) list \<Rightarrow> pystr \<Rightarrow> 'f json \<Rightarrow> 'f json" where
  "dict_get d k dflt = (case map_of d k of None \<Rightarrow> dflt | Some v \<Rightarrow> v)"

text \<open>\<open>v[i]\<close> for an index \<open>i \<ge> 0\<close>. The keys of a parsed JSON object are strings, so an
  integer is never a key of one.\<close>

fun py_index :: "'f json \<Rightarrow> nat \<Rightarrow> pyerr + 'f json" where
  "py_index (JList xs) i = (if i < length xs then Inr (xs ! i) else Inl IndexError)"
| "py_index (JStr s) i = (if i < length s then Inr (JStr [s ! i]) else Inl IndexError)"
| "py_index (JObj kvs) i = Inl KeyError"
| "py_index v i = Inl TypeError"

text \<open>The elements a \<open>for\<close> loop over \<open>v\<close> visits.\<close>

fun py_iter :: "'f json \<Rightarrow> pyerr + 'f json list" where
  "py_iter (JList xs) = Inr xs"
| "py_iter (JStr s) = Inr (map (\<lambda>c. JStr [c]) s)"
| "py_iter (JObj kvs) = Inr (map (\<lambda>(k, v). JStr k) kvs)"
| "py_iter v = Inl TypeError"

section \<open>The program\<close>

text \<open>
  The functions keep the names of \<open>weather.py\<close>, without the leading underscore of the
  private ones.
\<close>

definition OPEN_METEO_BASE :: pystr where
  "OPEN_METEO_BASE = ustr ''https://api.open-meteo.com/v1''"

subsection \<open>Units\<close>

record unit_params =
  temperature_unit :: pystr
  windspeed_unit :: pystr
  precipitation_unit :: pystr

definition imperial_units :: unit_params where
  "imperial_units =
     \<lparr>temperature_unit = ustr ''fahrenheit'', windspeed_unit = ustr ''mph'',
      precipitation_unit = ustr ''inch''\<rparr>"

definition metric_units :: unit_params where
  "metric_units =
     \<lparr>temperature_unit = ustr ''celsius'', windspeed_unit = ustr ''kmh'',
      precipitation_unit = ustr ''mm''\<rparr>"

definition units_map :: "pystr \<Rightarrow> unit_params" where
  "units_map units =
     (let u = py_lower (if units \<noteq> [] then units else ustr ''metric'')
      in if u = ustr ''imperial'' then imperial_units else metric_units)"

subsection \<open>Weather codes\<close>

definition map_es :: "(int \<times> pystr) list" where
  "map_es =
     [(0, ustr ''Despejado''),
      (1, ustr ''Mayormente despejado''),
      (2, ustr ''Parcialmente nublado''),
      (3, ustr ''Nublado''),
      (45, ustr ''Niebla''),
      (48, ustr ''Niebla con escarcha''),
      (51, ustr ''Llovizna ligera''),
      (53, ustr ''Llovizna moderada''),
      (55, ustr ''Llovizna intensa''),
      (56, ustr ''Llovizna congelante ligera''),
      (57, ustr ''Llovizna congelante intensa''),
      (61, ustr ''Lluvia ligera''),
      (63, ustr ''Lluvia moderada''),
      (65, ustr ''Lluvia fuerte''),
      (66, ustr ''Lluvia helada ligera''),
      (67, ustr ''Lluvia helada intensa''),
      (71, ustr ''Nevadas ligeras''),
      (73, ustr ''Nevadas moderadas''),
      (75, ustr ''Nevadas fuertes''),
      (77, ustr ''Granos de nieve''),
      (80, ustr ''Chubascos ligeros''),
      (81, ustr ''Chubascos moderados''),
      (82, ustr ''Chubascos violentos''),
      (85, ustr ''Chubascos de nieve ligeros''),
      (86, ustr ''Chubascos de nieve fuertes''),
      (95, ustr ''Tormenta''),
      (96, ustr ''Tormenta con granizo ligero''),
      (97, ustr ''Tormenta con granizo fuerte'')]"

definition map_en :: "(int \<times> pystr) list" where
  "map_en =
     [(0, ustr ''Clear''), (1, ustr ''Mostly clear''), (2, ustr ''Partly cloudy''),
      (3, ustr ''Overcast''),
      (45, ustr ''Fog''), (48, ustr ''Depositing rime fog''),
      (51, ustr ''Light drizzle''), (53, ustr ''Moderate drizzle''),
      (55, ustr ''Dense drizzle''),
      (56, ustr ''Light freezing drizzle''), (57, ustr ''Freezing drizzle''),
      (61, ustr ''Light rain''), (63, ustr ''Moderate rain''), (65, ustr ''Heavy rain''),
      (66, ustr ''Light freezing rain''), (67, ustr ''Freezing rain''),
      (71, ustr ''Light snow''), (73, ustr ''Moderate snow''), (75, ustr ''Heavy snow''),
      (77, ustr ''Snow grains''),
      (80, ustr ''Light showers''), (81, ustr ''Moderate showers''),
      (82, ustr ''Violent showers''),
      (85, ustr ''Light snow showers''), (86, ustr ''Heavy snow showers''),
      (95, ustr ''Thunderstorm''), (96, ustr ''Thunderstorm with slight hail''),
      (97, 8230 # ustr ''with heavy hail'')]"

text \<open>
  \<open>table.get(int(code), default)\<close>: \<open>int(code)\<close> may raise; the default is the same
  f-string for both tables.
\<close>

definition code_to_text :: "'f pybuiltins \<Rightarrow> 'f json \<Rightarrow> pystr \<Rightarrow> pyerr + pystr" where
  "code_to_text B code language =
     (let table = (if startswith (py_lower language) (ustr ''es'') then map_es else map_en)
      in case py_int B code of
           Inl e \<Rightarrow> Inl e
         | Inr n \<Rightarrow>
             Inr (case map_of table n of
                    Some t \<Rightarrow> t
                  | None \<Rightarrow> ustr ''C'' @ [243] @ ustr ''digo '' @ py_str B code))"

subsection \<open>The request\<close>

text \<open>
  The values of a query: the coordinates (of the abstract float type), numbers, strings
  and lists of strings. \<open>http\<close> stands for the HTTP client: the parsed body of the
  answer to a GET request, or the exception that \<open>client.get\<close>, \<open>raise_for_status\<close> or
  \<open>r.json()\<close> raised. Python's \<open>None\<close> is \<open>JNull\<close>.
\<close>

datatype 'f param = PFloat 'f | PInt int | PStr pystr | PStrs "pystr list"

type_synonym 'f http = "pystr \<Rightarrow> (pystr \<times> 'f param) list \<Rightarrow> pyerr + 'f json"

definition om_get :: "'f http \<Rightarrow> pystr \<Rightarrow> (pystr \<times> 'f param) list \<Rightarrow> 'f json" where
  "om_get http path params =
     (let url = OPEN_METEO_BASE @ ustr ''/'' @ path
      in case http url params of Inl e \<Rightarrow> JNull | Inr body \<Rightarrow> body)"

subsection \<open>Alerts\<close>

text \<open>The local variables of \<open>_fmt_alert_item\<close>, each a chain of \<open>or\<close>.\<close>

definition alert_headline :: "'f pybuiltins \<Rightarrow> (pystr \<times> 'f json) list \<Rightarrow> 'f json" where
  "alert_headline B a =
     py_or B (dict_get a (ustr ''headline'') JNull)
       (py_or B (dict_get a (ustr ''event'') JNull) (JStr (ustr ''Alerta'')))"

definition alert_severity :: "'f pybuiltins \<Rightarrow> (pystr \<times> 'f json) list \<Rightarrow> 'f json" where
  "alert_severity B a =
     py_or B (dict_get a (ustr ''severity'') JNull)
       (py_or B (dict_get a (ustr ''level'') JNull) (JStr (ustr ''desconocida'')))"

definition alert_description :: "'f pybuiltins \<Rightarrow> (pystr \<times> 'f json) list \<Rightarrow> 'f json" where
  "alert_description B a =
     py_or B (dict_get a (ustr ''description'') JNull)
       (py_or B (dict_get a (ustr ''instruction'') JNull)
         (py_or B (dict_get a (ustr ''text'') JNull)
           (JStr (ustr ''Sin descripci'' @ [243] @ ustr ''n''))))"

definition alert_sender :: "'f pybuiltins \<Rightarrow> (pystr \<times> 'f json) list \<Rightarrow> 'f json" where
  "alert_sender B a =
     py_or B (dict_get a (ustr ''sender'') JNull)
       (py_or B (dict_get a (ustr ''provider'') JNull) (JStr []))"

definition alert_onset :: "'f pybuiltins \<Rightarrow> (pystr \<times> 'f json) list \<Rightarrow> 'f json" where
  "alert_onset B a =
     py_or B (dict_get a (ustr ''onset'') JNull)
       (py_or B (dict_get a (ustr ''effective'') JNull) (JStr []))"

definition alert_expires :: "'f pybuiltins \<Rightarrow> (pystr \<times> 'f json) list \<Rightarrow> 'f json" where
  "alert_expires B a =
     py_or B (dict_get a (ustr ''expires'') JNull)
       (py_or B (dict_get a (ustr ''ends'') JNull) (JStr []))"

definition fmt_alert_item :: "'f pybuiltins \<Rightarrow> 'f json \<Rightarrow> pystr \<Rightarrow> pyerr + pystr" where
  "fmt_alert_item B a language =
     (case a of
        JObj d \<Rightarrow>
          (let headline = alert_headline B d;
               severity = alert_severity B d;
               description = alert_description B d;
               sender = alert_sender B d;
               onset = alert_onset B d;
               expires = alert_expires B d
           in if startswith (py_lower language) (ustr ''es'') then
                Inr ([9888, 65039] @ ustr '' '' @ py_str B headline @ [10]
                     @ ustr ''Severidad: '' @ py_str B severity @ [10]
                     @ ustr ''Desde: '' @ py_str B (py_or B onset (JStr (ustr ''N/D'')))
                     @ ustr ''  Hasta: '' @ py_str B (py_or B expires (JStr (ustr ''N/D'')))
                     @ [10]
                     @ ustr ''Fuente: '' @ py_str B (py_or B sender (JStr (ustr ''N/D''))) @ [10]
                     @ ustr ''Detalle: '' @ py_str B description @ [10])
              else
                Inr ([9888, 65039] @ ustr '' '' @ py_str B headline @ [10]
                     @ ustr ''Severity: '' @ py_str B severity @ [10]
                     @ ustr ''From: '' @ py_str B (py_or B onset (JStr (ustr ''N/A'')))
                     @ ustr ''  Until: '' @ py_str B (py_or B expires (JStr (ustr ''N/A'')))
                     @ [10]
                     @ ustr ''Source: '' @ py_str B (py_or B sender (JStr (ustr ''N/A''))) @ [10]
                     @ ustr ''Details: '' @ py_str B description @ [10]))
      | _ \<Rightarrow> Inl AttributeError)"

text \<open>The list comprehension of \<open>get_alerts\<close>: the first exception ends it.\<close>

fun fmt_alert_items :: "'f pybuiltins \<Rightarrow> pystr \<Rightarrow> 'f json list \<Rightarrow> pyerr + pystr list" where
  "fmt_alert_items B language [] = Inr []"
| "fmt_alert_items B language (w # ws) =
     (case fmt_alert_item B w language of
        Inl e \<Rightarrow> Inl e
      | Inr s \<Rightarrow>
          (case fmt_alert_items B language ws of
             Inl e \<Rightarrow> Inl e
           | Inr ss \<Rightarrow> Inr (s # ss)))"

definition alerts_fetch_failed :: pystr where
  "alerts_fetch_failed =
     ustr ''No pude obtener alertas (o el servicio no tiene cobertura para esta ubicaci''
     @ [243] @ ustr ''n).''"

definition no_active_alerts :: pystr where
  "no_active_alerts = ustr ''Sin alertas activas para estas coordenadas.''"

definition alerts_params :: "'f \<Rightarrow> 'f \<Rightarrow> (pystr \<times> 'f param) list" where
  "alerts_params latitude longitude =
     [(ustr ''latitude'', PFloat latitude),
      (ustr ''longitude'', PFloat longitude),
      (ustr ''timezone'', PStr (ustr ''auto''))]"

text \<open>The value that \<open>get_alerts\<close> binds to \<open>warnings\<close>, for a dict \<open>data\<close>.\<close>

definition select_warnings :: "'f pybuiltins \<Rightarrow> (pystr \<times> 'f json) list \<Rightarrow> 'f json" where
  "select_warnings B data =
     py_or B (dict_get data (ustr ''warnings'') JNull)
       (py_or B (dict_get data (ustr ''events'') JNull)
         (py_or B (dict_get data (ustr ''alerts'') JNull) (JList [])))"

definition get_alerts :: "'f pybuiltins \<Rightarrow> 'f http \<Rightarrow> 'f \<Rightarrow> 'f \<Rightarrow> pystr \<Rightarrow> pyerr + pystr" where
  "get_alerts B http latitude longitude language =
     (let params = alerts_params latitude longitude;
          data = om_get http (ustr ''warnings'') params
      in if \<not> truthy B data then Inr alerts_fetch_failed
         else case data of
                JObj d \<Rightarrow>
                  (let warnings = select_warnings B d
                   in if \<not> truthy B warnings then Inr no_active_alerts
                      else case py_iter warnings of
                             Inl e \<Rightarrow> Inl e
                           | Inr ws \<Rightarrow>
                               (case fmt_alert_items B language ws of
                                  Inl e \<Rightarrow> Inl e
                                | Inr formatted \<Rightarrow>
                                    Inr (py_join ([10] @ ustr ''---'' @ [10]) formatted)))
              | _ \<Rightarrow> Inl AttributeError)"

subsection \<open>Forecast\<close>

definition forecast_fetch_failed :: pystr where
  "forecast_fetch_failed =
     ustr ''No pude obtener el pron'' @ [243] @ ustr ''stico de Open-Meteo.''"

definition forecast_params :: "'f \<Rightarrow> 'f \<Rightarrow> int \<Rightarrow> unit_params \<Rightarrow> (pystr \<times> 'f param) list" where
  "forecast_params latitude longitude days um =
     [(ustr ''latitude'', PFloat latitude),
      (ustr ''longitude'', PFloat longitude),
      (ustr ''timezone'', PStr (ustr ''auto'')),
      (ustr ''forecast_days'', PInt days),
      (ustr ''daily'',
         PStrs [ustr ''temperature_2m_max'', ustr ''temperature_2m_min'',
                ustr ''precipitation_sum'', ustr ''windspeed_10m_max'', ustr ''weathercode'']),
      (ustr ''current'',
         PStrs [ustr ''temperature_2m'', ustr ''windspeed_10m'', ustr ''weathercode'']),
      (ustr ''temperature_unit'', PStr (temperature_unit um)),
      (ustr ''windspeed_unit'', PStr (windspeed_unit um)),
      (ustr ''precipitation_unit'', PStr (precipitation_unit um))]"

text \<open>The line of the current conditions, for a truthy \<open>cur\<close> (lines 186 to 193).\<close>

definition current_line ::
  "'f pybuiltins \<Rightarrow> unit_params \<Rightarrow> pystr \<Rightarrow> 'f json \<Rightarrow> pyerr + pystr" where
  "current_line B um language cur =
     (case cur of
        JObj c \<Rightarrow>
          (let tc = dict_get c (ustr ''temperature_2m'') JNull;
               wc = dict_get c (ustr ''weathercode'') JNull;
               ws = dict_get c (ustr ''windspeed_10m'') JNull
           in case code_to_text B wc language of
                Inl e \<Rightarrow> Inl e
              | Inr sky \<Rightarrow>
                  Inr (ustr ''Ahora: '' @ py_str B tc @ [176] @ ustr '' ''
                       @ ustr ''| Viento: '' @ py_str B ws @ ustr '' '' @ windspeed_unit um
                       @ ustr '' '' @ ustr ''| Cielo: '' @ sky))
      | _ \<Rightarrow> Inl AttributeError)"

text \<open>
  The body of the \<open>try\<close> (lines 208 to 214): the reads \<open>tmax[i]\<close> to \<open>wcode[i]\<close> and the
  translation of the code, any of which may raise, and the f-string \<open>day_text\<close> of the
  values read.
\<close>

definition day_text ::
  "'f pybuiltins \<Rightarrow> unit_params \<Rightarrow> 'f json \<Rightarrow> 'f json \<Rightarrow> 'f json \<Rightarrow> 'f json \<Rightarrow> 'f json
     \<Rightarrow> pystr \<Rightarrow> pystr" where
  "day_text B um d tx tn pr wm sky =
     py_str B d @ ustr '': ''
     @ ustr ''m'' @ [225] @ ustr ''x '' @ py_str B tx @ [176] @ ustr '', ''
     @ ustr ''m'' @ [237] @ ustr ''n '' @ py_str B tn @ [176] @ ustr '', ''
     @ ustr ''lluvia '' @ py_str B pr @ ustr '' '' @ precipitation_unit um @ ustr '', ''
     @ ustr ''viento m'' @ [225] @ ustr ''x '' @ py_str B wm @ ustr '' ''
     @ windspeed_unit um @ ustr '', ''
     @ sky"

definition day_line ::
  "'f pybuiltins \<Rightarrow> unit_params \<Rightarrow> pystr \<Rightarrow> 'f json \<Rightarrow> 'f json \<Rightarrow> 'f json \<Rightarrow> 'f json
     \<Rightarrow> 'f json \<Rightarrow> nat \<Rightarrow> 'f json \<Rightarrow> pyerr + pystr" where
  "day_line B um language tmax tmin prcp wmax wcode i d =
     (case py_index tmax i of Inl e \<Rightarrow> Inl e | Inr tx \<Rightarrow>
      case py_index tmin i of Inl e \<Rightarrow> Inl e | Inr tn \<Rightarrow>
      case py_index prcp i of Inl e \<Rightarrow> Inl e | Inr pr \<Rightarrow>
      case py_index wmax i of Inl e \<Rightarrow> Inl e | Inr wm \<Rightarrow>
      case py_index wcode i of Inl e \<Rightarrow> Inl e | Inr wc \<Rightarrow>
      case code_to_text B wc language of Inl e \<Rightarrow> Inl e | Inr sky \<Rightarrow>
        Inr (day_text B um d tx tn pr wm sky))"

text \<open>
  The loop over \<open>enumerate(dates)\<close>: \<open>i\<close> is the index of the first of the remaining
  dates \<open>ds\<close>, \<open>out\<close> the lines so far. An exception in the body skips the day.
\<close>

fun forecast_loop ::
  "'f pybuiltins \<Rightarrow> unit_params \<Rightarrow> pystr \<Rightarrow> 'f json \<Rightarrow> 'f json \<Rightarrow> 'f json \<Rightarrow> 'f json
     \<Rightarrow> 'f json \<Rightarrow> nat \<Rightarrow> 'f json list \<Rightarrow> pystr list \<Rightarrow> pystr list" where
  "forecast_loop B um language tmax tmin prcp wmax wcode i [] out = out"
| "forecast_loop B um language tmax tmin prcp wmax wcode i (d # ds) out =
     (case day_line B um language tmax tmin prcp wmax wcode i d of
        Inl e \<Rightarrow> forecast_loop B um language tmax tmin prcp wmax wcode (Suc i) ds out
      | Inr line \<Rightarrow>
          forecast_loop B um language tmax tmin prcp wmax wcode (Suc i) ds (out @ [line]))"

text \<open>\<open>daily.get(k, []) or []\<close>.\<close>

definition daily_seq :: "'f pybuiltins \<Rightarrow> (pystr \<times> 'f json) list \<Rightarrow> pystr \<Rightarrow> 'f json" where
  "daily_seq B daily k = py_or B (dict_get daily k (JList [])) (JList [])"

text \<open>What \<open>get_forecast\<close> does with a truthy \<open>data\<close> (lines 183 to 220).\<close>

definition render_forecast ::
  "'f pybuiltins \<Rightarrow> unit_params \<Rightarrow> pystr \<Rightarrow> 'f json \<Rightarrow> pyerr + pystr" where
  "render_forecast B um language data =
     (case data of
        JObj dt \<Rightarrow>
          (let cur = dict_get dt (ustr ''current'') (JObj [])
           in case (if truthy B cur
                    then (case current_line B um language cur of
                            Inl e \<Rightarrow> Inl e
                          | Inr line \<Rightarrow> Inr [line])
                    else Inr []) of
                Inl e \<Rightarrow> Inl e
              | Inr out \<Rightarrow>
                  (case dict_get dt (ustr ''daily'') (JObj []) of
                     JObj daily \<Rightarrow>
                       (let dates = daily_seq B daily (ustr ''time'');
                            tmax = daily_seq B daily (ustr ''temperature_2m_max'');
                            tmin = daily_seq B daily (ustr ''temperature_2m_min'');
                            prcp = daily_seq B daily (ustr ''precipitation_sum'');
                            wmax = daily_seq B daily (ustr ''windspeed_10m_max'');
                            wcode = daily_seq B daily (ustr ''weathercode'');
                            out = out @ [[]]
                        in case py_iter dates of
                             Inl e \<Rightarrow> Inl e
                           | Inr ds \<Rightarrow>
                               Inr (py_strip (py_join [10]
                                      (forecast_loop B um language tmax tmin prcp wmax wcode
                                         0 ds out))))
                   | _ \<Rightarrow> Inl AttributeError))
      | _ \<Rightarrow> Inl AttributeError)"

definition get_forecast ::
  "'f pybuiltins \<Rightarrow> 'f http \<Rightarrow> 'f \<Rightarrow> 'f \<Rightarrow> int \<Rightarrow> pystr \<Rightarrow> pystr \<Rightarrow> pyerr + pystr" where
  "get_forecast B http latitude longitude days units language =
     (let days = (if days < 1 then 1 else days);
          days = (if days > 16 then 16 else days);
          um = units_map units;
          params = forecast_params latitude longitude days um;
          data = om_get http (ustr ''forecast'') params
      in if \<not> truthy B data then Inr forecast_fetch_failed
         else render_forecast B um language data)"

section \<open>Properties\<close>

text \<open>
  The closed examples below are stated for this value of the parameter. Their inputs hold
  no float, no string that is converted to a number and no string inside a list or a
  dict, so none of its fields is ever consulted.
\<close>

definition plain_builtins :: "unit pybuiltins" where
  "plain_builtins =
     \<lparr>repr_str = (\<lambda>s. s), int_str = (\<lambda>s. Inl ValueError), str_float = (\<lambda>f. []),
      int_float = (\<lambda>f. Inl ValueError), bool_float = (\<lambda>f. True)\<rparr>"

text \<open>
  Example responses: the daily block of a one-day forecast and its line, a block of
  current conditions and its line, the daily block of the specification's example (three
  dates, two maximum temperatures) and its two lines, and a one-day block whose weather
  code is \<open>null\<close>.
\<close>

definition one_day :: "(pystr \<times> unit json) list" where
  "one_day = [(ustr ''time'', JList [JStr (ustr ''d0'')]),
              (ustr ''temperature_2m_max'', JList [JInt 1]),
              (ustr ''temperature_2m_min'', JList [JInt 1]),
              (ustr ''precipitation_sum'', JList [JInt 1]),
              (ustr ''windspeed_10m_max'', JList [JInt 1]),
              (ustr ''weathercode'', JList [JInt 1])]"

definition one_day_line :: pystr where
  "one_day_line =
     ustr ''d0: m'' @ [225] @ ustr ''x 1'' @ [176] @ ustr '', m'' @ [237] @ ustr ''n 1''
     @ [176] @ ustr '', lluvia 1 mm, viento m'' @ [225]
     @ ustr ''x 1 kmh, Mayormente despejado''"

definition now_line :: pystr where
  "now_line = ustr ''Ahora: 5'' @ [176] @ ustr '' | Viento: 7 kmh | Cielo: Despejado''"

definition now :: "(pystr \<times> unit json) list" where
  "now = [(ustr ''temperature_2m'', JInt 5), (ustr ''windspeed_10m'', JInt 7),
          (ustr ''weathercode'', JInt 0)]"

definition short_tmax :: "(pystr \<times> unit json) list" where
  "short_tmax =
     [(ustr ''time'', JList [JStr (ustr ''d0''), JStr (ustr ''d1''), JStr (ustr ''d2'')]),
      (ustr ''temperature_2m_max'', JList [JInt 10, JInt 20]),
      (ustr ''temperature_2m_min'', JList [JInt 1, JInt 2, JInt 3]),
      (ustr ''precipitation_sum'', JList [JInt 0, JInt 0, JInt 4]),
      (ustr ''windspeed_10m_max'', JList [JInt 5, JInt 6, JInt 7]),
      (ustr ''weathercode'', JList [JInt 0, JInt 3, JInt 61])]"

definition short_tmax_lines :: pystr where
  "short_tmax_lines =
     ustr ''d0: m'' @ [225] @ ustr ''x 10'' @ [176] @ ustr '', m'' @ [237] @ ustr ''n 1''
     @ [176] @ ustr '', lluvia 0 mm, viento m'' @ [225] @ ustr ''x 5 kmh, Despejado'' @ [10]
     @ ustr ''d1: m'' @ [225] @ ustr ''x 20'' @ [176] @ ustr '', m'' @ [237] @ ustr ''n 2''
     @ [176] @ ustr '', lluvia 0 mm, viento m'' @ [225] @ ustr ''x 6 kmh, Nublado''"

definition null_code :: "(pystr \<times> unit json) list" where
  "null_code = [(ustr ''time'', JList [JStr (ustr ''d0'')]),
                (ustr ''temperature_2m_max'', JList [JInt 1]),
                (ustr ''temperature_2m_min'', JList [JInt 1]),
                (ustr ''precipitation_sum'', JList [JInt 1]),
                (ustr ''windspeed_10m_max'', JList [JInt 1]),
                (ustr ''weathercode'', JList [JNull])]"

subsection \<open>The request of \<open>get_forecast\<close>\<close>

lemma clamp_days:
  "(if (if days < 1 then 1 else days) > 16 then 16 else (if days < 1 then 1 else days))
     = max 1 (min 16 (days::int))"
  by auto

lemma get_forecast_unfold:
  "get_forecast B http latitude longitude days units language =
     (if \<not> truthy B (om_get http (ustr ''forecast'')
                        (forecast_params latitude longitude (max 1 (min 16 days)) (units_map units)))
      then Inr forecast_fetch_failed
      else render_forecast B (units_map units) language
             (om_get http (ustr ''forecast'')
                (forecast_params latitude longitude (max 1 (min 16 days)) (units_map units))))"
  unfolding get_forecast_def Let_def clamp_days ..

text \<open>
  C7. \<open>get_forecast\<close> clamps \<open>days\<close> to the interval from 1 to 16 before the request is
  built: a call with any \<open>days\<close> is the call with the clamped value, the request carries
  the clamped value as \<open>forecast_days\<close>, and \<open>days = 20\<close> behaves as \<open>days = 16\<close>, whatever
  the HTTP client answers.
\<close>

theorem get_forecast_clamps_days:
  "get_forecast B http latitude longitude days units language =
     get_forecast B http latitude longitude (max 1 (min 16 days)) units language
   \<and> get_forecast B http latitude longitude days units language =
     (let um = units_map units;
          data = om_get http (ustr ''forecast'')
                   (forecast_params latitude longitude (max 1 (min 16 days)) um)
      in if truthy B data then render_forecast B um language data
         else Inr forecast_fetch_failed)
   \<and> map_of (forecast_params latitude longitude (max 1 (min 16 days)) um) (ustr ''forecast_days'')
       = Some (PInt (max 1 (min 16 days)))
   \<and> 1 \<le> max 1 (min 16 days) \<and> max 1 (min 16 days) \<le> 16
   \<and> get_forecast B http latitude longitude 20 units language =
     get_forecast B http latitude longitude 16 units language"
proof -
  have idem: "max 1 (min 16 (max 1 (min 16 days))) = max 1 (min 16 days)"
    by auto
  have a: "get_forecast B http latitude longitude days units language =
     get_forecast B http latitude longitude (max 1 (min 16 days)) units language"
    by (simp only: get_forecast_unfold [of _ _ _ _ days]
          get_forecast_unfold [of _ _ _ _ "max 1 (min 16 days)"] idem)
  have b: "get_forecast B http latitude longitude days units language =
     (let um = units_map units;
          data = om_get http (ustr ''forecast'')
                   (forecast_params latitude longitude (max 1 (min 16 days)) um)
      in if truthy B data then render_forecast B um language data
         else Inr forecast_fetch_failed)"
    by (simp add: get_forecast_unfold Let_def)
  have c: "map_of (forecast_params latitude longitude (max 1 (min 16 days)) um)
             (ustr ''forecast_days'') = Some (PInt (max 1 (min 16 days)))"
    by (simp add: forecast_params_def ustr_def)
  have d: "get_forecast B http latitude longitude 20 units language =
     get_forecast B http latitude longitude 16 units language"
    by (simp add: get_forecast_unfold)
  from a b c d show ?thesis by simp
qed

subsection \<open>The tables of weather codes\<close>

text \<open>
  C9. The Spanish and the English table have the same set of keys.
\<close>

theorem tables_same_keys: "set (map fst map_es) = set (map fst map_en)"
  by (simp add: map_es_def map_en_def)

subsection \<open>A fetch that fails, or succeeds with a falsy body\<close>

lemma om_get_const [simp]:
  "om_get (\<lambda>url params. Inr body) path params = body"
  "om_get (\<lambda>url params. Inl e) path params = JNull"
  by (simp_all add: om_get_def)

text \<open>
  C10. When the fetch succeeds but the parsed body is falsy (the empty object, for one),
  \<open>get_forecast\<close> and \<open>get_alerts\<close> return the same fixed message as after a transport
  failure: the guard \<open>if not data\<close> does not tell the two apart.
\<close>

theorem falsy_body_is_fetch_failure:
  assumes "\<not> truthy B body"
  shows "get_forecast B (\<lambda>url params. Inr body) latitude longitude days units language
           = Inr forecast_fetch_failed
       \<and> get_forecast B (\<lambda>url params. Inl e) latitude longitude days units language
           = Inr forecast_fetch_failed
       \<and> get_alerts B (\<lambda>url params. Inr body) latitude longitude language
           = Inr alerts_fetch_failed
       \<and> get_alerts B (\<lambda>url params. Inl e) latitude longitude language
           = Inr alerts_fetch_failed"
  using assms by (simp add: get_forecast_unfold get_alerts_def)

theorem falsy_body_is_fetch_failure_witness:
  "\<not> truthy plain_builtins (JObj [])
   \<and> get_forecast plain_builtins (\<lambda>url params. Inr (JObj [])) () () 3 (ustr ''metric'') (ustr ''es'')
       = Inr forecast_fetch_failed
   \<and> get_alerts plain_builtins (\<lambda>url params. Inr (JObj [])) () () (ustr ''es'')
       = Inr alerts_fetch_failed"
proof -
  have h: "\<not> truthy plain_builtins (JObj [])" by simp
  from falsy_body_is_fetch_failure [OF h, of "()" "()" 3 "ustr ''metric''" "ustr ''es''" TransportError] h
  show ?thesis by simp
qed

subsection \<open>Units\<close>

lemma lower_cp_cases: "(\<exists>x. lower_cp c = [x]) \<or> lower_cp c = [105, 775]"
  by (simp add: lower_cp_def)

lemma py_lower_Nil [simp]: "py_lower [] = []" by (simp add: py_lower_def)
lemma py_lower_Cons: "py_lower (c # s) = lower_cp c @ py_lower s" by (simp add: py_lower_def)

lemma py_lower_eq_iff:
  "775 \<notin> set t \<Longrightarrow> (py_lower s = t) = list_all2 (\<lambda>c l. lower_cp c = [l]) s t"
proof (induction s arbitrary: t)
  case Nil
  then show ?case by auto
next
  case (Cons c s)
  show ?case
  proof (cases t)
    case Nil
    then show ?thesis using lower_cp_cases [of c] by (auto simp: py_lower_Cons)
  next
    case (Cons l t')
    with Cons.prems have t': "775 \<notin> set t'" by simp
    from lower_cp_cases [of c] show ?thesis
    proof
      assume "\<exists>x. lower_cp c = [x]"
      then obtain x where "lower_cp c = [x]" ..
      then show ?thesis using Cons.IH [OF t'] Cons by (simp add: py_lower_Cons)
    next
      assume two: "lower_cp c = [105, 775]"
      have "py_lower (c # s) \<noteq> t"
      proof
        assume "py_lower (c # s) = t"
        then have "775 \<in> set t" using two by (auto simp: py_lower_Cons)
        with Cons.prems show False by simp
      qed
      then show ?thesis using two Cons by simp
    qed
  qed
qed

lemma lower_cp_letter:
  "97 \<le> l \<Longrightarrow> l \<le> 122 \<Longrightarrow> l \<noteq> 107 \<Longrightarrow> (lower_cp c = [l]) = (c = l \<or> c + 32 = l)"
  by (auto simp: lower_cp_def)

lemma py_lower_imperial:
  "(py_lower s = ustr ''imperial'') = list_all2 (\<lambda>c l. c = l \<or> c + 32 = l) s (ustr ''imperial'')"
proof -
  have "(py_lower s = ustr ''imperial'') = list_all2 (\<lambda>c l. lower_cp c = [l]) s (ustr ''imperial'')"
    by (rule py_lower_eq_iff) (simp add: ustr_def)
  also have "\<dots> = list_all2 (\<lambda>c l. c = l \<or> c + 32 = l) s (ustr ''imperial'')"
    by (rule list.rel_cong [OF refl refl]) (auto simp: ustr_def lower_cp_letter)
  finally show ?thesis .
qed

text \<open>
  C6, as stated, fails: the input is lower-cased but not trimmed. The string
  \<open>" imperial"\<close> is \<open>"imperial"\<close> once lower-cased and trimmed, and \<open>_units_map\<close> answers
  with the metric set.
\<close>

theorem units_map_no_trim_counterexample:
  "py_strip (py_lower (ustr '' imperial'')) = ustr ''imperial''
   \<and> units_map (ustr '' imperial'') = metric_units
   \<and> metric_units \<noteq> imperial_units"
  by (simp add: units_map_def py_lower_def lower_cp_def ustr_def py_strip_def lstrip_def
        rstrip_def is_space_def metric_units_def imperial_units_def)

lemma units_map_eq:
  "units_map units = (if py_lower units = ustr ''imperial'' then imperial_units else metric_units)"
proof (cases "units = []")
  case True
  then show ?thesis by (simp add: units_map_def py_lower_def lower_cp_def ustr_def)
next
  case False
  then show ?thesis by (simp add: units_map_def)
qed

lemma units_differ: "imperial_units \<noteq> metric_units"
  by (simp add: metric_units_def imperial_units_def ustr_def)

text \<open>
  C6, amended. \<open>_units_map\<close> is total; it lower-cases its input and does not trim it. It
  returns the imperial set (fahrenheit, mph, inch) exactly when the lower-cased input
  is \<open>"imperial"\<close>, that is when the input is \<open>"imperial"\<close> up to the case of each letter,
  and the metric set (celsius, kmh, mm) for every other string, the empty one included.
\<close>

theorem units_map_lowercase_only:
  "units_map units = (if py_lower units = ustr ''imperial'' then imperial_units else metric_units)
   \<and> (units_map units = imperial_units)
       = list_all2 (\<lambda>c l. c = l \<or> c + 32 = l) units (ustr ''imperial'')
   \<and> (units_map units = imperial_units \<or> units_map units = metric_units)
   \<and> units_map [] = metric_units
   \<and> units_map (ustr ''IMPERIAL'') = imperial_units
   \<and> units_map (ustr ''Imperial'') = imperial_units
   \<and> units_map (ustr ''imperial'') = imperial_units
   \<and> imperial_units
       = \<lparr>temperature_unit = ustr ''fahrenheit'', windspeed_unit = ustr ''mph'',
          precipitation_unit = ustr ''inch''\<rparr>
   \<and> metric_units
       = \<lparr>temperature_unit = ustr ''celsius'', windspeed_unit = ustr ''kmh'',
          precipitation_unit = ustr ''mm''\<rparr>"
proof -
  have a: "(units_map units = imperial_units)
       = list_all2 (\<lambda>c l. c = l \<or> c + 32 = l) units (ustr ''imperial'')"
    using units_differ by (simp add: units_map_eq py_lower_imperial [symmetric])
  have b: "units_map [] = metric_units"
    by (simp add: units_map_eq ustr_def)
  have c: "units_map (ustr ''IMPERIAL'') = imperial_units"
    "units_map (ustr ''Imperial'') = imperial_units"
    "units_map (ustr ''imperial'') = imperial_units"
    by (simp_all add: units_map_eq py_lower_def lower_cp_def ustr_def)
  have d: "units_map units = imperial_units \<or> units_map units = metric_units"
    by (simp add: units_map_eq)
  note e = units_map_eq [of units]
  show ?thesis
    by (intro conjI) (rule e a d b c imperial_units_def metric_units_def)+
qed

subsection \<open>Codes outside the tables\<close>

lemma map_en_None: "n \<notin> set (map fst map_es) \<Longrightarrow> map_of map_en n = None"
  by (simp add: map_of_eq_None_iff map_es_def map_en_def)
lemma map_es_None: "n \<notin> set (map fst map_es) \<Longrightarrow> map_of map_es n = None"
  by (simp add: map_of_eq_None_iff)

text \<open>
  C3, amended. For every integer code that is not a key of the tables, \<open>_code_to_text\<close>
  returns the text \<open>"Codigo "\<close> (with o-acute) followed by the decimal code, for the
  Spanish and for the English locale alike.
\<close>

theorem code_to_text_fallback:
  assumes "n \<notin> set (map fst map_es)"
  shows "code_to_text B (JInt n) language
           = Inr (ustr ''C'' @ [243] @ ustr ''digo '' @ str_int n)"
  using map_en_None [OF assms] map_es_None [OF assms]
  by (simp add: code_to_text_def py_str_def)

lemma str_int_9999: "str_int 9999 = ustr ''9999''"
  by (simp add: str_int_def digits.simps ustr_def)

theorem code_to_text_fallback_witness:
  "9999 \<notin> set (map fst map_es)
   \<and> code_to_text plain_builtins (JInt 9999) (ustr ''es'')
       = Inr (ustr ''C'' @ [243] @ ustr ''digo 9999'')
   \<and> code_to_text plain_builtins (JInt 9999) (ustr ''en'')
       = Inr (ustr ''C'' @ [243] @ ustr ''digo 9999'')
   \<and> contains (ustr ''C'' @ [243] @ ustr ''digo 9999'') (ustr ''9999'')"
proof -
  have h: "9999 \<notin> set (map fst map_es)" by (simp add: map_es_def)
  have c: "contains (ustr ''C'' @ [243] @ ustr ''digo 9999'') (ustr ''9999'')"
    by (simp add: ustr_def startswith_def)
  from code_to_text_fallback [OF h, of plain_builtins "ustr ''es''"]
       code_to_text_fallback [OF h, of plain_builtins "ustr ''en''"] h c
  show ?thesis by (simp add: str_int_9999 ustr_def)
qed

text \<open>
  C3, as stated, fails for the English locale: the text for the code 9999 is the Spanish
  one and does not contain the word \<open>Code\<close>.
\<close>

theorem code_to_text_english_fallback_counterexample:
  "code_to_text plain_builtins (JInt 9999) (ustr ''en'')
     = Inr (ustr ''C'' @ [243] @ ustr ''digo 9999'')
   \<and> \<not> contains (ustr ''C'' @ [243] @ ustr ''digo 9999'') (ustr ''Code'')"
  by (simp add: code_to_text_def map_en_def py_str_def str_int_def digits.simps startswith_def
        py_lower_def lower_cp_def ustr_def)

subsection \<open>The headline of an alert\<close>

lemma alert_headline_both:
  assumes "map_of a (ustr ''headline'') = Some h" and "map_of a (ustr ''event'') = Some e"
  shows "alert_headline B a
           = (if truthy B h then h else if truthy B e then e else JStr (ustr ''Alerta''))"
  using assms by (simp add: alert_headline_def dict_get_def py_or_def)

lemma fmt_alert_item_headline:
  "\<exists>rest. fmt_alert_item B (JObj a) language
            = Inr ([9888, 65039, 32] @ py_str B (alert_headline B a) @ [10] @ rest)"
  by (simp add: fmt_alert_item_def Let_def ustr_def)

text \<open>
  C8, amended. When an alert record has both the keys \<open>headline\<close> and \<open>event\<close>, the
  headline of the formatted block is the value under \<open>headline\<close> if that value is
  truthy; otherwise it is the value under \<open>event\<close> if that one is truthy, and the default
  \<open>"Alerta"\<close> if neither is. The block starts with the warning sign and this headline.
\<close>

theorem headline_priority:
  assumes "map_of a (ustr ''headline'') = Some h" and "map_of a (ustr ''event'') = Some e"
  shows "alert_headline B a
           = (if truthy B h then h else if truthy B e then e else JStr (ustr ''Alerta''))
       \<and> (\<exists>rest. fmt_alert_item B (JObj a) language
            = Inr ([9888, 65039, 32] @ py_str B (alert_headline B a) @ [10] @ rest))"
  using alert_headline_both [OF assms] fmt_alert_item_headline by blast

theorem headline_priority_witness:
  "map_of [(ustr ''headline'', JStr (ustr ''Flood'')), (ustr ''event'', JStr (ustr ''Storm''))]
      (ustr ''headline'') = Some (JStr (ustr ''Flood'') :: unit json)
   \<and> map_of [(ustr ''headline'', JStr (ustr ''Flood'')), (ustr ''event'', JStr (ustr ''Storm''))]
      (ustr ''event'') = Some (JStr (ustr ''Storm'') :: unit json)
   \<and> alert_headline plain_builtins
        [(ustr ''headline'', JStr (ustr ''Flood'')), (ustr ''event'', JStr (ustr ''Storm''))]
       = JStr (ustr ''Flood'')"
proof -
  let ?a = "[(ustr ''headline'', JStr (ustr ''Flood'')), (ustr ''event'', JStr (ustr ''Storm''))]
              :: (pystr \<times> unit json) list"
  have h: "map_of ?a (ustr ''headline'') = Some (JStr (ustr ''Flood''))"
    by (simp add: ustr_def)
  have e: "map_of ?a (ustr ''event'') = Some (JStr (ustr ''Storm''))"
    by (simp add: ustr_def)
  from headline_priority [OF h e, of plain_builtins] h e
  show ?thesis by (simp add: ustr_def)
qed

text \<open>
  C8, as stated, fails: the choice depends on the values. With an empty string under
  \<open>headline\<close> and \<open>"Storm"\<close> under \<open>event\<close>, both keys are present and the headline is
  \<open>"Storm"\<close>.
\<close>

theorem headline_falsy_counterexample:
  "map_of [(ustr ''headline'', JStr []), (ustr ''event'', JStr (ustr ''Storm''))]
      (ustr ''headline'') = Some (JStr [] :: unit json)
   \<and> alert_headline plain_builtins
        [(ustr ''headline'', JStr []), (ustr ''event'', JStr (ustr ''Storm''))]
       = JStr (ustr ''Storm'')
   \<and> fmt_alert_item plain_builtins
        (JObj [(ustr ''headline'', JStr []), (ustr ''event'', JStr (ustr ''Storm''))])
        (ustr ''en'')
       = Inr ([9888, 65039] @ ustr '' Storm'' @ [10]
              @ ustr ''Severity: desconocida'' @ [10]
              @ ustr ''From: N/A  Until: N/A'' @ [10]
              @ ustr ''Source: N/A'' @ [10]
              @ ustr ''Details: Sin descripci'' @ [243] @ ustr ''n'' @ [10])"
  by (simp add: fmt_alert_item_def alert_headline_def alert_severity_def alert_description_def
        alert_sender_def alert_onset_def alert_expires_def dict_get_def py_or_def py_str_def
        startswith_def py_lower_def lower_cp_def ustr_def)

subsection \<open>The list of alerts\<close>

lemma select_warnings_filter:
  "select_warnings B d
     = (case filter (truthy B)
              (map (\<lambda>k. dict_get d k JNull) [ustr ''warnings'', ustr ''events'', ustr ''alerts''])
        of [] \<Rightarrow> JList [] | w # ws \<Rightarrow> w)"
  by (simp add: select_warnings_def py_or_def)

lemma messages_differ: "no_active_alerts \<noteq> alerts_fetch_failed"
  by (simp add: no_active_alerts_def alerts_fetch_failed_def ustr_def)

text \<open>
  C5, amended. For every non-empty response object, \<open>get_alerts\<close> takes as the list of
  records the first truthy value among those under \<open>warnings\<close>, \<open>events\<close> and \<open>alerts\<close>,
  in that order. If none of the three is present and truthy it returns the fixed
  message for no active alerts; that message differs from the one returned after a
  transport failure.
\<close>

theorem get_alerts_selects_first_truthy:
  assumes "d \<noteq> []"
  shows "get_alerts B (\<lambda>url params. Inr (JObj d)) latitude longitude language
           = (case filter (truthy B)
                  (map (\<lambda>k. dict_get d k JNull)
                     [ustr ''warnings'', ustr ''events'', ustr ''alerts''])
              of [] \<Rightarrow> Inr no_active_alerts
               | w # rest \<Rightarrow>
                   (case py_iter w of
                      Inl e \<Rightarrow> Inl e
                    | Inr ws \<Rightarrow>
                        (case fmt_alert_items B language ws of
                           Inl e \<Rightarrow> Inl e
                         | Inr formatted \<Rightarrow>
                             Inr (py_join ([10] @ ustr ''---'' @ [10]) formatted))))
       \<and> get_alerts B (\<lambda>url params. Inl x) latitude longitude language
           = Inr alerts_fetch_failed
       \<and> no_active_alerts \<noteq> alerts_fetch_failed"
proof -
  have "get_alerts B (\<lambda>url params. Inl x) latitude longitude language = Inr alerts_fetch_failed"
    by (simp add: get_alerts_def)
  moreover have "get_alerts B (\<lambda>url params. Inr (JObj d)) latitude longitude language
           = (case filter (truthy B)
                  (map (\<lambda>k. dict_get d k JNull)
                     [ustr ''warnings'', ustr ''events'', ustr ''alerts''])
              of [] \<Rightarrow> Inr no_active_alerts
               | w # rest \<Rightarrow>
                   (case py_iter w of
                      Inl e \<Rightarrow> Inl e
                    | Inr ws \<Rightarrow>
                        (case fmt_alert_items B language ws of
                           Inl e \<Rightarrow> Inl e
                         | Inr formatted \<Rightarrow>
                             Inr (py_join ([10] @ ustr ''---'' @ [10]) formatted))))"
    using assms by (simp add: get_alerts_def Let_def select_warnings_filter)
  ultimately show ?thesis using messages_differ by blast
qed

theorem get_alerts_selects_first_truthy_witness:
  "[(ustr ''events'', JList [])] \<noteq> ([] :: (pystr \<times> unit json) list)
   \<and> get_alerts plain_builtins (\<lambda>url params. Inr (JObj [(ustr ''events'', JList [])])) () ()
        (ustr ''es'') = Inr no_active_alerts
   \<and> get_alerts plain_builtins (\<lambda>url params. Inr (JObj [(ustr ''warnings'', JNull)])) () ()
        (ustr ''es'') = Inr no_active_alerts
   \<and> get_alerts plain_builtins (\<lambda>url params. Inl TransportError) () () (ustr ''es'')
        = Inr alerts_fetch_failed"
proof -
  have a: "[(ustr ''events'', JList [])] \<noteq> ([] :: (pystr \<times> unit json) list)" by simp
  have b: "[(ustr ''warnings'', JNull)] \<noteq> ([] :: (pystr \<times> unit json) list)" by simp
  from get_alerts_selects_first_truthy [OF a, of plain_builtins "()" "()" "ustr ''es''" TransportError]
       get_alerts_selects_first_truthy [OF b, of plain_builtins "()" "()" "ustr ''es''" TransportError]
  show ?thesis by (simp add: dict_get_def ustr_def)
qed

text \<open>
  C5, as stated for every response object, fails at the empty object: none of the three
  keys is present, and the answer is the message of a failed fetch, not the one for no
  active alerts.
\<close>

theorem get_alerts_empty_object_counterexample:
  "get_alerts plain_builtins (\<lambda>url params. Inr (JObj [])) () () (ustr ''es'')
     = Inr alerts_fetch_failed
   \<and> alerts_fetch_failed \<noteq> no_active_alerts"
  by (simp add: get_alerts_def no_active_alerts_def alerts_fetch_failed_def ustr_def)

subsection \<open>The loop over the days\<close>

lemma forecast_loop_acc:
  "forecast_loop B um language tmax tmin prcp wmax wcode i ds out
     = out @ forecast_loop B um language tmax tmin prcp wmax wcode i ds []"
proof (induction ds arbitrary: i out)
  case Nil
  then show ?case by simp
next
  case (Cons d ds)
  show ?case
  proof (cases "day_line B um language tmax tmin prcp wmax wcode i d")
    case (Inl e)
    then show ?thesis using Cons.IH [of "Suc i" out] by simp
  next
    case (Inr line)
    then show ?thesis
      using Cons.IH [of "Suc i" "out @ [line]"] Cons.IH [of "Suc i" "[line]"] by simp
  qed
qed

lemma code_to_text_isl: "isl (code_to_text B wc language) = isl (py_int B wc)"
  by (simp add: code_to_text_def Let_def split: sum.splits)

lemma day_line_lists:
  "day_line B um language (JList tmax) (JList tmin) (JList prcp) (JList wmax) (JList wcode) i d
     = (if i < length tmax \<and> i < length tmin \<and> i < length prcp \<and> i < length wmax
           \<and> i < length wcode \<and> \<not> isl (py_int B (wcode ! i))
        then Inr (day_text B um d (tmax ! i) (tmin ! i) (prcp ! i) (wmax ! i)
                    (projr (code_to_text B (wcode ! i) language)))
        else Inl (projl (day_line B um language (JList tmax) (JList tmin) (JList prcp)
                           (JList wmax) (JList wcode) i d)))"
  using code_to_text_isl [of B "wcode ! i" language]
  by (auto simp: day_line_def split: sum.splits)

lemma forecast_loop_lists:
  "forecast_loop B um language (JList tmax) (JList tmin) (JList prcp) (JList wmax) (JList wcode)
       i ds []
     = map (\<lambda>(j, d). day_text B um d (tmax ! j) (tmin ! j) (prcp ! j) (wmax ! j)
                       (projr (code_to_text B (wcode ! j) language)))
         (filter (\<lambda>(j, d). j < length tmax \<and> j < length tmin \<and> j < length prcp \<and> j < length wmax
                    \<and> j < length wcode \<and> \<not> isl (py_int B (wcode ! j)))
            (enumerate i ds))"
proof (induction ds arbitrary: i)
  case Nil
  then show ?case by simp
next
  case (Cons d ds)
  let ?ok = "i < length tmax \<and> i < length tmin \<and> i < length prcp \<and> i < length wmax
               \<and> i < length wcode \<and> \<not> isl (py_int B (wcode ! i))"
  show ?case
  proof (cases ?ok)
    case True
    then have "day_line B um language (JList tmax) (JList tmin) (JList prcp) (JList wmax)
                 (JList wcode) i d
               = Inr (day_text B um d (tmax ! i) (tmin ! i) (prcp ! i) (wmax ! i)
                        (projr (code_to_text B (wcode ! i) language)))"
      by (subst day_line_lists) simp
    then show ?thesis
      using True Cons.IH [of "Suc i"]
        forecast_loop_acc [of B um language "JList tmax" "JList tmin" "JList prcp" "JList wmax"
          "JList wcode" "Suc i" ds "[x]" for x]
      by (simp add: enumerate_simps)
  next
    case False
    then have "isl (day_line B um language (JList tmax) (JList tmin) (JList prcp) (JList wmax)
                 (JList wcode) i d)"
      by (subst day_line_lists) simp
    then obtain e where "day_line B um language (JList tmax) (JList tmin) (JList prcp)
                 (JList wmax) (JList wcode) i d = Inl e"
      by (auto simp: isl_def)
    then show ?thesis
      using False Cons.IH [of "Suc i"] by (simp add: enumerate_simps)
  qed
qed

subsection \<open>Exceptions that escape\<close>

lemma map_of_Some_nonempty: "map_of d k = Some v \<Longrightarrow> d \<noteq> []"
  by auto

text \<open>
  C1. The claim is that no exception escapes \<open>get_forecast\<close>, in particular when the
  block of current conditions is non-empty and has no \<open>weathercode\<close>. The code does not
  do that: \<open>cur.get("weathercode")\<close> is \<open>None\<close>, \<open>int(None)\<close> raises \<open>TypeError\<close> in
  \<open>_code_to_text\<close>, and the line of the current conditions is built outside any \<open>try\<close>.
  For every response whose \<open>current\<close> is a non-empty dict without the key
  \<open>weathercode\<close>, \<open>get_forecast\<close> raises \<open>TypeError\<close>.
\<close>

theorem get_forecast_raises_without_weathercode:
  assumes "map_of dt (ustr ''current'') = Some (JObj c)"
    and "c \<noteq> []"
    and "map_of c (ustr ''weathercode'') = None"
  shows "get_forecast B (\<lambda>url params. Inr (JObj dt)) latitude longitude days units language
           = Inl TypeError"
proof -
  have "current_line B (units_map units) language (JObj c) = Inl TypeError"
    using assms(3) by (simp add: current_line_def dict_get_def code_to_text_def)
  moreover have "dt \<noteq> []"
    using assms(1) by (rule map_of_Some_nonempty)
  ultimately show ?thesis
    using assms(1,2) by (simp add: get_forecast_unfold render_forecast_def dict_get_def)
qed

theorem get_forecast_raises_without_weathercode_witness:
  "map_of [(ustr ''current'', JObj [(ustr ''temperature_2m'', JInt 5)])] (ustr ''current'')
     = Some (JObj [(ustr ''temperature_2m'', JInt 5)] :: unit json)
   \<and> [(ustr ''temperature_2m'', JInt 5)] \<noteq> ([] :: (pystr \<times> unit json) list)
   \<and> map_of [(ustr ''temperature_2m'', JInt 5 :: unit json)] (ustr ''weathercode'') = None
   \<and> get_forecast plain_builtins
        (\<lambda>url params. Inr (JObj [(ustr ''current'', JObj [(ustr ''temperature_2m'', JInt 5)])]))
        () () 3 (ustr ''metric'') (ustr ''es'')
       = Inl TypeError"
proof -
  let ?c = "[(ustr ''temperature_2m'', JInt 5)] :: (pystr \<times> unit json) list"
  let ?dt = "[(ustr ''current'', JObj ?c)]"
  have a: "map_of ?dt (ustr ''current'') = Some (JObj ?c)" by simp
  have b: "?c \<noteq> []" by simp
  have c: "map_of ?c (ustr ''weathercode'') = None" by (simp add: ustr_def)
  from get_forecast_raises_without_weathercode [OF a b c, of plain_builtins "()" "()" 3
         "ustr ''metric''" "ustr ''es''"] a b c
  show ?thesis by simp
qed

subsection \<open>Trimming and joining\<close>

lemma lstrip_nonspace: "\<not> is_space c \<Longrightarrow> lstrip (c # s) = c # s"
  by (simp add: lstrip_def)

lemma lstrip_space: "is_space c \<Longrightarrow> lstrip (c # s) = lstrip s"
  by (simp add: lstrip_def)

lemma rstrip_append:
  assumes "c \<in> set t" and "\<not> is_space c"
  shows "rstrip (s @ t) = s @ rstrip t"
proof -
  have "dropWhile is_space (rev t @ rev s) = dropWhile is_space (rev t) @ rev s"
    using assms by (intro dropWhile_append1 [of c]) auto
  then show ?thesis by (simp add: rstrip_def)
qed

lemma rstrip_space: "is_space c \<Longrightarrow> rstrip (s @ [c]) = rstrip s"
  by (simp add: rstrip_def)

lemma rstrip_Cons_nonspace: "\<not> is_space c \<Longrightarrow> rstrip (c # s) = c # rstrip s"
proof (cases "\<exists>x\<in>set s. \<not> is_space x")
  case True
  assume "\<not> is_space c"
  from True obtain x where "x \<in> set s" "\<not> is_space x" by blast
  then show ?thesis using rstrip_append [of x s "[c]"] by simp
next
  case False
  assume c: "\<not> is_space c"
  from False have "dropWhile is_space (rev s) = []" by auto
  moreover from False have "dropWhile is_space (rev s @ [c]) = [c]"
    using c by (simp add: dropWhile_append)
  ultimately show ?thesis by (simp add: rstrip_def)
qed

lemma lstrip_no_leading_space: "lstrip s = [] \<or> \<not> is_space (hd (lstrip s))"
  unfolding lstrip_def by (metis hd_dropWhile)

lemma py_strip_no_leading_newline: "\<not> startswith (py_strip s) [10]"
proof
  assume "startswith (py_strip s) [10]"
  then obtain r where r: "py_strip s = 10 # r"
    by (cases "py_strip s") (auto simp: startswith_def)
  have "lstrip s \<noteq> []" using r by (auto simp: py_strip_def rstrip_def)
  then obtain c t where ct: "lstrip s = c # t" by (cases "lstrip s") auto
  with lstrip_no_leading_space [of s] have c: "\<not> is_space c" by simp
  then have "py_strip s = c # rstrip t"
    by (simp add: py_strip_def ct rstrip_Cons_nonspace)
  with r have "c = 10" by simp
  with c show False by (simp add: is_space_def)
qed

lemma daily_seq_list: "map_of dl k = Some (JList xs) \<Longrightarrow> daily_seq B dl k = JList xs"
  by (simp add: daily_seq_def dict_get_def py_or_def)

lemma render_forecast_daily:
  assumes "map_of dt (ustr ''daily'') = Some (JObj dl)"
    and "py_iter (daily_seq B dl (ustr ''time'')) = Inr ds"
  shows "render_forecast B um language (JObj dt)
     = (case (if truthy B (dict_get dt (ustr ''current'') (JObj []))
              then (case current_line B um language (dict_get dt (ustr ''current'') (JObj [])) of
                      Inl e \<Rightarrow> Inl e
                    | Inr line \<Rightarrow> Inr [line])
              else Inr []) of
          Inl e \<Rightarrow> Inl e
        | Inr out \<Rightarrow>
            Inr (py_strip (py_join [10]
                   (out @ [[]] @
                    forecast_loop B um language
                      (daily_seq B dl (ustr ''temperature_2m_max''))
                      (daily_seq B dl (ustr ''temperature_2m_min''))
                      (daily_seq B dl (ustr ''precipitation_sum''))
                      (daily_seq B dl (ustr ''windspeed_10m_max''))
                      (daily_seq B dl (ustr ''weathercode'')) 0 ds []))))"
proof -
  have d: "dict_get dt (ustr ''daily'') (JObj []) = JObj dl"
    using assms(1) by (simp add: dict_get_def)
  show ?thesis
    unfolding render_forecast_def Let_def
    apply (simp only: json.case d assms(2) sum.case)
    apply (subst forecast_loop_acc)
    apply (simp split: sum.splits)
    done
qed

lemma day_text_colon: "58 \<in> set (day_text B um d tx tn pr wm sky)"
  by (simp add: day_text_def ustr_def)

lemma day_line_colon:
  "day_line B um language tmax tmin prcp wmax wcode i d = Inr line \<Longrightarrow> 58 \<in> set line"
  by (auto simp: day_line_def day_text_colon split: sum.splits)

lemma forecast_loop_colon:
  "line \<in> set (forecast_loop B um language tmax tmin prcp wmax wcode i ds [])
     \<Longrightarrow> 58 \<in> set line"
proof (induction ds arbitrary: i)
  case Nil
  then show ?case by simp
next
  case (Cons d ds)
  show ?case
  proof (cases "day_line B um language tmax tmin prcp wmax wcode i d")
    case (Inl e)
    then show ?thesis using Cons by simp
  next
    case (Inr l)
    then have "line \<in> set ([l] @ forecast_loop B um language tmax tmin prcp wmax wcode (Suc i) ds [])"
      using Cons.prems forecast_loop_acc [of B um language tmax tmin prcp wmax wcode "Suc i" ds "[l]"]
      by simp
    then show ?thesis using Cons.IH day_line_colon [OF Inr] by auto
  qed
qed

lemma py_join_colon:
  "L \<noteq> [] \<Longrightarrow> (\<And>l. l \<in> set L \<Longrightarrow> 58 \<in> set l) \<Longrightarrow> 58 \<in> set (py_join sep L)"
  by (induction sep L rule: py_join.induct) auto

lemma py_join_Cons: "py_join sep (x # L) = (if L = [] then x else x @ sep @ py_join sep L)"
  by (cases L) simp_all

lemma not_space_58: "\<not> is_space 58" by (simp add: is_space_def)
lemma space_10: "is_space 10" by (simp add: is_space_def)

lemma current_line_Ahora:
  "current_line B um language cur = Inr cl \<Longrightarrow> \<exists>r. cl = 65 # r"
  by (auto simp: current_line_def Let_def ustr_def split: json.splits sum.splits)

lemma strip_sep_days: "py_strip (py_join [10] ([] # L)) = py_strip (py_join [10] L)"
  by (cases L) (simp_all add: py_strip_def lstrip_space space_10)

lemma strip_cur_sep:
  assumes "cl = 65 # r" and "\<And>l. l \<in> set L \<Longrightarrow> 58 \<in> set l"
  shows "py_strip (py_join [10] ([cl] @ [[]] @ L))
           = (if L = [] then rstrip cl else cl @ [10, 10] @ rstrip (py_join [10] L))"
proof -
  have ns: "\<not> is_space 65" by (simp add: is_space_def)
  show ?thesis
  proof (cases "L = []")
    case True
    then show ?thesis
      using assms(1) rstrip_space [OF space_10, of cl]
      by (simp add: py_strip_def lstrip_nonspace ns)
  next
    case False
    have j: "py_join [10] ([cl] @ [[]] @ L) = (cl @ [10, 10]) @ py_join [10] L"
      using False by (simp add: py_join_Cons)
    have l: "lstrip ((cl @ [10, 10]) @ py_join [10] L) = (cl @ [10, 10]) @ py_join [10] L"
      using assms(1) lstrip_nonspace [OF ns] by simp
    have c: "58 \<in> set (py_join [10] L)"
      using False assms(2) by (rule py_join_colon)
    have r: "rstrip ((cl @ [10, 10]) @ py_join [10] L) = (cl @ [10, 10]) @ rstrip (py_join [10] L)"
      using c not_space_58 by (rule rstrip_append)
    have "py_strip (py_join [10] ([cl] @ [[]] @ L))
            = rstrip (lstrip ((cl @ [10, 10]) @ py_join [10] L))"
      by (simp only: py_strip_def j)
    also have "\<dots> = rstrip ((cl @ [10, 10]) @ py_join [10] L)"
      by (simp only: l)
    also note r
    finally show ?thesis
      using False by simp
  qed
qed

subsection \<open>The separator line\<close>

text \<open>
  C2, amended. The empty separator line is appended to the list of lines in every case,
  but the final trim removes it when no line precedes it. For a response whose \<open>daily\<close>
  is a dict with an iterable \<open>time\<close>: if \<open>current\<close> is absent or falsy, the result is the
  trimmed join of the day-lines alone and never begins with a newline; if a line of
  current conditions is produced and at least one day-line follows, the result is that
  line, an empty line and the day-lines; with no day-line it is the line of current
  conditions alone.
\<close>

theorem separator_after_trim:
  fixes B :: "'f pybuiltins" and dl :: "(pystr \<times> 'f json) list"
  defines "L ds um language \<equiv>
             forecast_loop B um language
               (daily_seq B dl (ustr ''temperature_2m_max''))
               (daily_seq B dl (ustr ''temperature_2m_min''))
               (daily_seq B dl (ustr ''precipitation_sum''))
               (daily_seq B dl (ustr ''windspeed_10m_max''))
               (daily_seq B dl (ustr ''weathercode'')) 0 ds []"
  assumes "map_of dt (ustr ''daily'') = Some (JObj dl)"
    and "py_iter (daily_seq B dl (ustr ''time'')) = Inr ds"
  shows "get_forecast B (\<lambda>url params. Inr (JObj dt)) latitude longitude days units language
           = (if truthy B (dict_get dt (ustr ''current'') (JObj []))
              then (case current_line B (units_map units) language
                           (dict_get dt (ustr ''current'') (JObj [])) of
                      Inl e \<Rightarrow> Inl e
                    | Inr cl \<Rightarrow>
                        Inr (if L ds (units_map units) language = [] then rstrip cl
                             else cl @ [10, 10]
                                  @ rstrip (py_join [10] (L ds (units_map units) language))))
              else Inr (py_strip (py_join [10] (L ds (units_map units) language))))
       \<and> \<not> startswith (py_strip (py_join [10] (L ds (units_map units) language))) [10]"
proof -
  have dt: "dt \<noteq> []" using assms(2) by (rule map_of_Some_nonempty)
  have g: "get_forecast B (\<lambda>url params. Inr (JObj dt)) latitude longitude days units language
             = render_forecast B (units_map units) language (JObj dt)"
    using dt by (simp add: get_forecast_unfold)
  have colon: "\<And>l. l \<in> set (L ds (units_map units) language) \<Longrightarrow> 58 \<in> set l"
    unfolding L_def by (rule forecast_loop_colon)
  show ?thesis
  proof (cases "truthy B (dict_get dt (ustr ''current'') (JObj []))")
    case False
    then show ?thesis
      unfolding g render_forecast_daily [OF assms(2,3)]
      by (simp add: strip_sep_days L_def py_strip_no_leading_newline)
  next
    case True
    show ?thesis
    proof (cases "current_line B (units_map units) language
                    (dict_get dt (ustr ''current'') (JObj []))")
      case (Inl e)
      then show ?thesis
        unfolding g render_forecast_daily [OF assms(2,3)]
        using True by (simp add: py_strip_no_leading_newline)
    next
      case (Inr cl)
      from current_line_Ahora [OF Inr] obtain r where r: "cl = 65 # r" ..
      have "py_strip (py_join [10] ([cl] @ [[]] @ L ds (units_map units) language))
              = (if L ds (units_map units) language = [] then rstrip cl
                 else cl @ [10, 10] @ rstrip (py_join [10] (L ds (units_map units) language)))"
        using r colon by (rule strip_cur_sep)
      then show ?thesis
        unfolding g render_forecast_daily [OF assms(2,3)]
        using True Inr by (simp add: py_strip_no_leading_newline L_def)
    qed
  qed
qed

lemmas eval_defs = render_forecast_def current_line_def day_line_def day_text_def
  daily_seq_def dict_get_def py_or_def code_to_text_def map_es_def map_en_def py_str_def
  str_int_def digits.simps startswith_def py_lower_def lower_cp_def units_map_def
  metric_units_def imperial_units_def py_strip_def lstrip_def rstrip_def is_space_def
  forecast_fetch_failed_def

text \<open>
  C2, as stated, fails: with \<open>current = {}\<close> and one day, the result is the single
  day-line; it contains no newline at all, so no blank line stands before the day
  entries.
\<close>

theorem separator_trimmed_counterexample:
  "get_forecast plain_builtins
     (\<lambda>url params. Inr (JObj [(ustr ''current'', JObj []), (ustr ''daily'', JObj one_day)]))
     () () 3 (ustr ''metric'') (ustr ''es'')
   = Inr one_day_line
   \<and> 10 \<notin> set one_day_line"
  by (simp add: get_forecast_unfold eval_defs one_day_def one_day_line_def ustr_def)

theorem separator_after_trim_witness:
  "map_of [(ustr ''current'', JObj []), (ustr ''daily'', JObj one_day)] (ustr ''daily'')
     = Some (JObj one_day)
   \<and> py_iter (daily_seq plain_builtins one_day (ustr ''time'')) = Inr [JStr (ustr ''d0'')]
   \<and> get_forecast plain_builtins
        (\<lambda>url params. Inr (JObj [(ustr ''current'', JObj []), (ustr ''daily'', JObj one_day)]))
        () () 3 (ustr ''metric'') (ustr ''es'')
      = Inr one_day_line
   \<and> get_forecast plain_builtins
        (\<lambda>url params. Inr (JObj [(ustr ''current'', JObj now), (ustr ''daily'', JObj one_day)]))
        () () 3 (ustr ''metric'') (ustr ''es'')
      = Inr (now_line @ [10, 10] @ one_day_line)"
proof -
  let ?dt = "[(ustr ''current'', JObj []), (ustr ''daily'', JObj one_day)]"
  let ?dt' = "[(ustr ''current'', JObj now), (ustr ''daily'', JObj one_day)]"
  have a: "map_of ?dt (ustr ''daily'') = Some (JObj one_day)"
    by (simp add: ustr_def)
  have a': "map_of ?dt' (ustr ''daily'') = Some (JObj one_day)"
    by (simp add: ustr_def)
  have b: "py_iter (daily_seq plain_builtins one_day (ustr ''time'')) = Inr [JStr (ustr ''d0'')]"
    by (simp add: daily_seq_def dict_get_def py_or_def one_day_def ustr_def)
  have c: "get_forecast plain_builtins (\<lambda>url params. Inr (JObj ?dt)) () () 3 (ustr ''metric'')
             (ustr ''es'') = Inr one_day_line"
    using separator_after_trim [OF a b, of "()" "()" 3 "ustr ''metric''" "ustr ''es''"]
    by (simp add: eval_defs one_day_def one_day_line_def ustr_def)
  have d: "get_forecast plain_builtins (\<lambda>url params. Inr (JObj ?dt')) () () 3 (ustr ''metric'')
             (ustr ''es'') = Inr (now_line @ [10, 10] @ one_day_line)"
    using separator_after_trim [OF a' b, of "()" "()" 3 "ustr ''metric''" "ustr ''es''"]
    by (simp add: eval_defs one_day_def one_day_line_def now_def now_line_def ustr_def)
  from a b c d show ?thesis by blast
qed

subsection \<open>Sequences of different lengths\<close>

lemma length_filter_enumerate:
  "length (filter (\<lambda>(i, d). P i) (enumerate n ds)) = length (filter P [n..<n + length ds])"
proof -
  have "filter P [n..<n + length ds] = filter P (map fst (enumerate n ds))"
    by simp
  also have "\<dots> = map fst (filter (P \<circ> fst) (enumerate n ds))"
    by (simp only: filter_map)
  finally show ?thesis
    by (simp add: comp_def case_prod_unfold)
qed

text \<open>
  C4, amended. When the six entries of \<open>daily\<close> are lists, the loop emits one complete
  day-line, in order, for each index of the date list at which the five other lists have
  an entry and \<open>int()\<close> accepts the entry of the code list; every other index is skipped
  without an exception and without a partial line. With no \<open>current\<close> block the result
  of \<open>get_forecast\<close> is the trimmed join of these lines. In the example of the
  specification (three dates, two maximum temperatures) exactly two day-lines are
  produced.
\<close>

theorem day_lines_for_readable_indices:
  assumes "map_of dt (ustr ''current'') = None"
    and "map_of dt (ustr ''daily'') = Some (JObj dl)"
    and "map_of dl (ustr ''time'') = Some (JList ds)"
    and "map_of dl (ustr ''temperature_2m_max'') = Some (JList tmax)"
    and "map_of dl (ustr ''temperature_2m_min'') = Some (JList tmin)"
    and "map_of dl (ustr ''precipitation_sum'') = Some (JList prcp)"
    and "map_of dl (ustr ''windspeed_10m_max'') = Some (JList wmax)"
    and "map_of dl (ustr ''weathercode'') = Some (JList wcode)"
  shows "forecast_loop B um language (JList tmax) (JList tmin) (JList prcp) (JList wmax)
           (JList wcode) 0 ds out
         = out @ map (\<lambda>(i, d). day_text B um d (tmax ! i) (tmin ! i) (prcp ! i) (wmax ! i)
                                  (projr (code_to_text B (wcode ! i) language)))
                   (filter (\<lambda>(i, d). i < length tmax \<and> i < length tmin \<and> i < length prcp
                              \<and> i < length wmax \<and> i < length wcode
                              \<and> \<not> isl (py_int B (wcode ! i)))
                      (enumerate 0 ds))
       \<and> length (forecast_loop B um language (JList tmax) (JList tmin) (JList prcp) (JList wmax)
                   (JList wcode) 0 ds [])
         = length (filter (\<lambda>i. i < length tmax \<and> i < length tmin \<and> i < length prcp
                              \<and> i < length wmax \<and> i < length wcode
                              \<and> \<not> isl (py_int B (wcode ! i)))
                     [0..<length ds])
       \<and> get_forecast B (\<lambda>url params. Inr (JObj dt)) latitude longitude days units language
         = Inr (py_strip (py_join [10]
                  (forecast_loop B (units_map units) language (JList tmax) (JList tmin)
                     (JList prcp) (JList wmax) (JList wcode) 0 ds [])))"
proof -
  have one: "forecast_loop B um language (JList tmax) (JList tmin) (JList prcp) (JList wmax)
           (JList wcode) 0 ds out
         = out @ map (\<lambda>(i, d). day_text B um d (tmax ! i) (tmin ! i) (prcp ! i) (wmax ! i)
                                  (projr (code_to_text B (wcode ! i) language)))
                   (filter (\<lambda>(i, d). i < length tmax \<and> i < length tmin \<and> i < length prcp
                              \<and> i < length wmax \<and> i < length wcode
                              \<and> \<not> isl (py_int B (wcode ! i)))
                      (enumerate 0 ds))"
    by (subst forecast_loop_acc) (simp only: forecast_loop_lists)
  have two: "length (forecast_loop B um language (JList tmax) (JList tmin) (JList prcp)
                   (JList wmax) (JList wcode) 0 ds [])
         = length (filter (\<lambda>i. i < length tmax \<and> i < length tmin \<and> i < length prcp
                              \<and> i < length wmax \<and> i < length wcode
                              \<and> \<not> isl (py_int B (wcode ! i)))
                     [0..<length ds])"
    using length_filter_enumerate
      [of "\<lambda>i. i < length tmax \<and> i < length tmin \<and> i < length prcp
                              \<and> i < length wmax \<and> i < length wcode
                              \<and> \<not> isl (py_int B (wcode ! i))" 0 ds]
    by (simp only: forecast_loop_lists length_map add_0)
  have dt: "dt \<noteq> []" using assms(2) by (rule map_of_Some_nonempty)
  have it: "py_iter (daily_seq B dl (ustr ''time'')) = Inr ds"
    by (simp add: daily_seq_list [OF assms(3)])
  have cur: "\<not> truthy B (dict_get dt (ustr ''current'') (JObj []))"
    using assms(1) by (simp add: dict_get_def)
  have three: "get_forecast B (\<lambda>url params. Inr (JObj dt)) latitude longitude days units language
         = Inr (py_strip (py_join [10]
                  (forecast_loop B (units_map units) language (JList tmax) (JList tmin)
                     (JList prcp) (JList wmax) (JList wcode) 0 ds [])))"
    using dt cur
    by (simp add: get_forecast_unfold render_forecast_daily [OF assms(2) it] strip_sep_days
          daily_seq_list [OF assms(4)] daily_seq_list [OF assms(5)] daily_seq_list [OF assms(6)]
          daily_seq_list [OF assms(7)] daily_seq_list [OF assms(8)])
  from one two three show ?thesis by blast
qed

theorem day_lines_for_readable_indices_witness:
  "map_of [(ustr ''daily'', JObj short_tmax)] (ustr ''current'') = None
   \<and> map_of [(ustr ''daily'', JObj short_tmax)] (ustr ''daily'') = Some (JObj short_tmax)
   \<and> map_of short_tmax (ustr ''time'')
       = Some (JList [JStr (ustr ''d0''), JStr (ustr ''d1''), JStr (ustr ''d2'')])
   \<and> map_of short_tmax (ustr ''temperature_2m_max'') = Some (JList [JInt 10, JInt 20])
   \<and> length (forecast_loop plain_builtins metric_units (ustr ''es'')
               (JList [JInt 10, JInt 20]) (JList [JInt 1, JInt 2, JInt 3])
               (JList [JInt 0, JInt 0, JInt 4]) (JList [JInt 5, JInt 6, JInt 7])
               (JList [JInt 0, JInt 3, JInt 61]) 0
               [JStr (ustr ''d0''), JStr (ustr ''d1''), JStr (ustr ''d2'')] [])
       = 2
   \<and> get_forecast plain_builtins (\<lambda>url params. Inr (JObj [(ustr ''daily'', JObj short_tmax)]))
        () () 3 (ustr ''metric'') (ustr ''es'')
       = Inr short_tmax_lines"
proof -
  let ?dt = "[(ustr ''daily'', JObj short_tmax)]"
  let ?ds = "[JStr (ustr ''d0''), JStr (ustr ''d1''), JStr (ustr ''d2'')] :: unit json list"
  have a: "map_of ?dt (ustr ''current'') = None" by (simp add: ustr_def)
  have b: "map_of ?dt (ustr ''daily'') = Some (JObj short_tmax)" by simp
  have c: "map_of short_tmax (ustr ''time'') = Some (JList ?ds)"
    by (simp add: short_tmax_def ustr_def)
  have d: "map_of short_tmax (ustr ''temperature_2m_max'') = Some (JList [JInt 10, JInt 20])"
    by (simp add: short_tmax_def ustr_def)
  have e: "map_of short_tmax (ustr ''temperature_2m_min'') = Some (JList [JInt 1, JInt 2, JInt 3])"
    by (simp add: short_tmax_def ustr_def)
  have f: "map_of short_tmax (ustr ''precipitation_sum'') = Some (JList [JInt 0, JInt 0, JInt 4])"
    by (simp add: short_tmax_def ustr_def)
  have g: "map_of short_tmax (ustr ''windspeed_10m_max'') = Some (JList [JInt 5, JInt 6, JInt 7])"
    by (simp add: short_tmax_def ustr_def)
  have h: "map_of short_tmax (ustr ''weathercode'') = Some (JList [JInt 0, JInt 3, JInt 61])"
    by (simp add: short_tmax_def ustr_def)
  note t = day_lines_for_readable_indices [OF a b c d e f g h, of plain_builtins]
  have n: "length (forecast_loop plain_builtins metric_units (ustr ''es'')
               (JList [JInt 10, JInt 20]) (JList [JInt 1, JInt 2, JInt 3])
               (JList [JInt 0, JInt 0, JInt 4]) (JList [JInt 5, JInt 6, JInt 7])
               (JList [JInt 0, JInt 3, JInt 61]) 0 ?ds []) = 2"
    using t [of metric_units "ustr ''es''" "[]" "()" "()" 3 "ustr ''metric''"]
    by (simp add: upt_rec nth_Cons')
  have r: "get_forecast plain_builtins (\<lambda>url params. Inr (JObj ?dt)) () () 3 (ustr ''metric'')
             (ustr ''es'') = Inr short_tmax_lines"
    using t [of metric_units "ustr ''es''" "[]" "()" "()" 3 "ustr ''metric''"]
    by (simp add: eval_defs short_tmax_lines_def ustr_def)
  from a b c d n r show ?thesis by blast
qed

text \<open>
  C4, as stated, fails: when the entry of the code list is \<open>null\<close>, the index is present in
  all five lists, yet \<open>int(None)\<close> raises inside the \<open>try\<close> and the day is skipped; no
  day-line is produced.
\<close>

theorem null_code_day_skipped_counterexample:
  "forecast_loop plain_builtins metric_units (ustr ''es'')
     (JList [JInt 1]) (JList [JInt 1]) (JList [JInt 1]) (JList [JInt 1]) (JList [JNull])
     0 [JStr (ustr ''d0'')] []
   = []
   \<and> get_forecast plain_builtins (\<lambda>url params. Inr (JObj [(ustr ''daily'', JObj null_code)]))
       () () 3 (ustr ''metric'') (ustr ''es'')
     = Inr []"
  by (simp add: get_forecast_unfold eval_defs null_code_def ustr_def)

end
